theory Spec2Isabelle
  imports Main "HOL-Library.Log_Nat" "HOL-Library.AList" "HOL-Library.Multiset" "HOL-Library.Word"
begin

section \<open>The cart and order workflow of the meal-ordering client\<close>

text \<open>
  A shallow embedding of \<^verbatim>\<open>src/pages/Checkout.tsx\<close> (\<^verbatim>\<open>loadCartItems\<close>,
  \<^verbatim>\<open>removeFromCart\<close>, \<^verbatim>\<open>updateQuantity\<close>, \<^verbatim>\<open>totalPrice\<close>, \<^verbatim>\<open>totalMacros\<close>,
  \<^verbatim>\<open>handlePlaceOrder\<close>) and of \<^verbatim>\<open>addToCart\<close> in \<^verbatim>\<open>src/pages/Meals.tsx\<close>.
  Every handler is a function from the state before the call to the state after it; the
  state holds the browser's \<^verbatim>\<open>localStorage\<close> entry, the React state of the two pages,
  the toasts and navigations emitted, the requests sent to the storage service and the two
  tables the workflow writes.
\<close>

subsection \<open>JavaScript numbers\<close>

text \<open>
  \<^verbatim>\<open>price\<close>, \<^verbatim>\<open>quantity\<close> and the nutritional fields are TypeScript \<^verbatim>\<open>number\<close>s: IEEE 754
  binary64 values. A finite value is kept as the rational it denotes; the two zeros are
  identified (the program never divides and prints both as \<^verbatim>\<open>0\<close>). Arithmetic rounds
  the exact result to the nearest representable value, ties to the even significand,
  with gradual underflow below \<open>2\<^sup>-\<^sup>1\<^sup>0\<^sup>2\<^sup>2\<close> and overflow to an infinity.
\<close>

datatype number = Fin rat | PosInf | NegInf | NaN

definition floor_log2 :: "rat \<Rightarrow> int" where
  \<comment> \<open>for \<open>0 < x\<close>: the \<open>k\<close> with \<open>2\<^sup>k \<le> x < 2\<^sup>k\<^sup>+\<^sup>1\<close>\<close>
  "floor_log2 x =
     (let (p, q) = quotient_of x; k = bitlen p - bitlen q
      in if 2 powi k \<le> x then k else k - 1)"

definition round_half_even :: "rat \<Rightarrow> int" where
  "round_half_even y =
     (let f = \<lfloor>y\<rfloor>; d = y - of_int f
      in if d < 1 / 2 then f else if 1 / 2 < d then f + 1
         else if even f then f else f + 1)"

definition round_double :: "rat \<Rightarrow> number" where
  \<comment> \<open>the binary64 value nearest to \<open>x\<close>: 53 significant bits, least exponent \<open>-1074\<close>\<close>
  "round_double x =
     (if x = 0 then Fin 0
      else let e = max (- 1074) (floor_log2 \<bar>x\<bar> - 52);
               r = of_int (round_half_even (x / 2 powi e)) * 2 powi e
           in if 2 ^ 1024 \<le> r then PosInf
              else if r \<le> - (2 ^ 1024) then NegInf
              else Fin r)"

fun fadd :: "number \<Rightarrow> number \<Rightarrow> number" where
  \<comment> \<open>\<^verbatim>\<open>a + b\<close> on numbers\<close>
  "fadd (Fin a) (Fin b) = round_double (a + b)"
| "fadd NaN _ = NaN"
| "fadd _ NaN = NaN"
| "fadd PosInf NegInf = NaN"
| "fadd NegInf PosInf = NaN"
| "fadd PosInf _ = PosInf"
| "fadd _ PosInf = PosInf"
| "fadd NegInf _ = NegInf"
| "fadd _ NegInf = NegInf"

fun fmul :: "number \<Rightarrow> number \<Rightarrow> number" where
  \<comment> \<open>\<^verbatim>\<open>a * b\<close> on numbers\<close>
  "fmul (Fin a) (Fin b) = round_double (a * b)"
| "fmul NaN _ = NaN"
| "fmul _ NaN = NaN"
| "fmul (Fin a) PosInf = (if a = 0 then NaN else if 0 < a then PosInf else NegInf)"
| "fmul (Fin a) NegInf = (if a = 0 then NaN else if 0 < a then NegInf else PosInf)"
| "fmul PosInf (Fin b) = (if b = 0 then NaN else if 0 < b then PosInf else NegInf)"
| "fmul NegInf (Fin b) = (if b = 0 then NaN else if 0 < b then NegInf else PosInf)"
| "fmul PosInf PosInf = PosInf"
| "fmul NegInf NegInf = PosInf"
| "fmul PosInf NegInf = NegInf"
| "fmul NegInf PosInf = NegInf"

fun lt :: "number \<Rightarrow> number \<Rightarrow> bool" where
  \<comment> \<open>\<^verbatim>\<open>a < b\<close> on numbers: false as soon as one side is \<^verbatim>\<open>NaN\<close>\<close>
  "lt (Fin a) (Fin b) = (a < b)"
| "lt NaN _ = False"
| "lt _ NaN = False"
| "lt _ NegInf = False"
| "lt PosInf _ = False"
| "lt NegInf _ = True"
| "lt _ PosInf = True"

fun le :: "number \<Rightarrow> number \<Rightarrow> bool" where
  \<comment> \<open>\<^verbatim>\<open>a <= b\<close> on numbers\<close>
  "le (Fin a) (Fin b) = (a \<le> b)"
| "le NaN _ = False"
| "le _ NaN = False"
| "le NegInf _ = True"
| "le _ PosInf = True"
| "le _ NegInf = False"
| "le PosInf _ = False"

definition truthy :: "number \<Rightarrow> bool" where
  \<comment> \<open>a number in a boolean position: \<^verbatim>\<open>0\<close> and \<^verbatim>\<open>NaN\<close> are falsy\<close>
  "truthy n = (n \<noteq> Fin 0 \<and> n \<noteq> NaN)"

fun rat_of :: "number \<Rightarrow> rat" where
  \<comment> \<open>the value of a finite number (used in statements only)\<close>
  "rat_of (Fin r) = r"
| "rat_of _ = 0"

definition is_natural :: "number \<Rightarrow> bool" where
  \<comment> \<open>a finite, non-negative whole number (used in statements only)\<close>
  "is_natural n = (case n of Fin r \<Rightarrow> 0 \<le> r \<and> of_int \<lfloor>r\<rfloor> = r | _ \<Rightarrow> False)"

subsection \<open>JavaScript strings\<close>

text \<open>
  The delivery address is the only string the code computes on (\<^verbatim>\<open>trim\<close>); it is a list
  of UTF-16 code units. Identifiers, titles and messages are only compared and passed on,
  and are HOL strings.
\<close>

type_synonym code_unit = "16 word"

definition is_white_space :: "code_unit \<Rightarrow> bool" where
  \<comment> \<open>ECMAScript \<^verbatim>\<open>WhiteSpace\<close> and \<^verbatim>\<open>LineTerminator\<close>, the code units \<^verbatim>\<open>trim\<close> strips\<close>
  "is_white_space c =
     (c \<in> set [0x0009, 0x000A, 0x000B, 0x000C, 0x000D, 0x0020, 0x00A0, 0x1680,
                0x2028, 0x2029, 0x202F, 0x205F, 0x3000, 0xFEFF]
      \<or> (0x2000 \<le> c \<and> c \<le> 0x200A))"

definition trim :: "code_unit list \<Rightarrow> code_unit list" where
  "trim s = rev (dropWhile is_white_space (rev (dropWhile is_white_space s)))"

definition utf16 :: "string \<Rightarrow> code_unit list" where
  \<comment> \<open>the code units of an ASCII literal\<close>
  "utf16 s = map (\<lambda>c. of_nat (of_char c)) s"

subsection \<open>Data\<close>

text \<open>
  \<^verbatim>\<open>interface Meal\<close> and \<^verbatim>\<open>interface CartItem extends Meal\<close>. The four nutritional fields
  come first, as a record of their own, because the accumulator of \<^verbatim>\<open>totalMacros\<close> is an
  object with exactly these four fields: the selectors \<open>calories\<close>, \<open>protein\<close>, \<open>carbs\<close> and
  \<open>fats\<close> then read both a line item and the accumulator, as in the source.
  The field \<^verbatim>\<open>id\<close> is written \<open>id'\<close>.
\<close>

record order_items_insert =
  order_id :: string
  meal_id :: string
  quantity :: number
  price_at_purchase :: number

record Macros =
  calories :: number
  protein :: number
  carbs :: number
  fats :: number

record Meal = Macros +
  id' :: string
  name :: string
  price :: number

record CartItem = Meal +
  quantity :: number

text \<open>
  The value of \<^verbatim>\<open>localStorage["cart"]\<close>, a \<^verbatim>\<open>Record<string, number>\<close>: the object that
  \<^verbatim>\<open>JSON.parse\<close> returns and \<^verbatim>\<open>JSON.stringify\<close> writes, with its keys in insertion order.
  \<open>AList.update\<close> is the assignment \<^verbatim>\<open>cart[k] = v\<close> (in place, or appended for a new key),
  \<open>AList.delete\<close> is \<^verbatim>\<open>delete cart[k]\<close>, \<open>map_of\<close> is the lookup \<^verbatim>\<open>cart[k]\<close>. The
  two JSON functions are inverse to each other on objects whose values are finite numbers,
  which are the carts of this model.
\<close>

type_synonym cart = "(string \<times> number) list"

record toast =
  title :: string
  description :: "string option"
  variant :: "string option"

text \<open>The rows of \<^verbatim>\<open>orders\<close> and \<^verbatim>\<open>order_items\<close>, with the columns the client writes.\<close>

record orders_insert =
  user_id :: string
  total_price :: number
  delivery_address :: "code_unit list"
  status :: string
  payment_status :: string

record orders_row = orders_insert +
  orders_id :: string

datatype request =
    Select_meals_in "string list"
  | Auth_getUser
  | Insert_orders orders_insert
  | Insert_order_items "order_items_insert list"

text \<open>A supabase response \<^verbatim>\<open>{ data, error }\<close>; an error is kept as its \<^verbatim>\<open>message\<close>.\<close>

record 'a response =
  data :: "'a option"
  error :: "string option"

record world =
  localStorage :: "cart option"  \<comment> \<open>\<^verbatim>\<open>localStorage.getItem("cart")\<close>, \<open>None\<close> for \<^verbatim>\<open>null\<close>\<close>
  Meals_cart :: cart  \<comment> \<open>the state \<^verbatim>\<open>cart\<close> of the Meals page\<close>
  cartItems :: "CartItem list"  \<comment> \<open>state of the Checkout page\<close>
  loading :: bool
  deliveryAddress :: "code_unit list"
  toasts :: "toast list"  \<comment> \<open>the calls of \<^verbatim>\<open>toast\<close>, oldest first\<close>
  navigated :: "string list"  \<comment> \<open>the calls of \<^verbatim>\<open>navigate\<close>\<close>
  requests :: "request list"  \<comment> \<open>the requests sent to the storage service\<close>
  orders :: "orders_row list"  \<comment> \<open>table \<^verbatim>\<open>orders\<close>\<close>
  order_items :: "order_items_insert list"  \<comment> \<open>table \<^verbatim>\<open>order_items\<close>\<close>

text \<open>
  What the storage service answers during one handler: the rows of \<^verbatim>\<open>meals\<close> the caller
  may read, whether that read fails, the signed-in user, and for each of the two writes
  whether it is accepted (an accepted order gets the identifier on the right).
\<close>

record backend =
  meals :: "Meal list"
  meals_error :: "string option"
  user :: "string option"
  orders_verdict :: "string + string"
  order_items_verdict :: "string option"

subsection \<open>The storage service\<close>

definition select_meals_in :: "backend \<Rightarrow> string list \<Rightarrow> world \<Rightarrow> Meal list response \<times> world" where
  \<comment> \<open>Modelled from the spec: the supabase client is not part of the sources.
      \<^verbatim>\<open>from("meals").select("*").in("id", ids)\<close> is the Catalog Reader's \<^verbatim>\<open>fetchByIds\<close>:
      the rows whose identifier is requested; an identifier with no row is omitted.\<close>
  "select_meals_in b ids w =
     (let w' = w\<lparr>requests := requests w @ [Select_meals_in ids]\<rparr>
      in case meals_error b of
           Some msg \<Rightarrow> (\<lparr>data = None, error = Some msg\<rparr>, w')
         | None \<Rightarrow> (\<lparr>data = Some (filter (\<lambda>m. id' m \<in> set ids) (meals b)), error = None\<rparr>, w'))"

definition auth_getUser :: "backend \<Rightarrow> world \<Rightarrow> string option \<times> world" where
  \<comment> \<open>Modelled from the spec: \<^verbatim>\<open>getCurrentUser() -> UserIdentity | none\<close>.\<close>
  "auth_getUser b w = (user b, w\<lparr>requests := requests w @ [Auth_getUser]\<rparr>)"

definition insert_orders :: "backend \<Rightarrow> orders_insert \<Rightarrow> world \<Rightarrow> orders_row response \<times> world" where
  \<comment> \<open>Modelled from the spec: \<^verbatim>\<open>from("orders").insert(row).select().single()\<close> is
      insert-one(Order). A write is applied atomically or rejected with an error; the
      accepted row is returned with its generated identifier.\<close>
  "insert_orders b row w =
     (let w' = w\<lparr>requests := requests w @ [Insert_orders row]\<rparr>
      in case orders_verdict b of
           Inl msg \<Rightarrow> (\<lparr>data = None, error = Some msg\<rparr>, w')
         | Inr new_id \<Rightarrow>
             (let r = \<lparr>user_id = user_id row, total_price = total_price row,
                       delivery_address = delivery_address row, status = status row,
                       payment_status = payment_status row, orders_id = new_id\<rparr>
              in (\<lparr>data = Some r, error = None\<rparr>, w'\<lparr>orders := orders w' @ [r]\<rparr>)))"

definition insert_order_items :: "backend \<Rightarrow> order_items_insert list \<Rightarrow> world \<Rightarrow> string option \<times> world" where
  \<comment> \<open>Modelled from the spec: \<^verbatim>\<open>from("order_items").insert(rows)\<close> is insert-many(OrderLine),
      one batched write, applied as a whole or rejected with an error.\<close>
  "insert_order_items b rows w =
     (let w' = w\<lparr>requests := requests w @ [Insert_order_items rows]\<rparr>
      in case order_items_verdict b of
           Some msg \<Rightarrow> (Some msg, w')
         | None \<Rightarrow> (None, w'\<lparr>order_items := order_items w' @ rows\<rparr>))"

subsection \<open>Checkout.tsx\<close>

definition emit :: "toast \<Rightarrow> world \<Rightarrow> world" where
  \<comment> \<open>\<^verbatim>\<open>toast({...})\<close>\<close>
  "emit t w = w\<lparr>toasts := toasts w @ [t]\<rparr>"

definition loadCartItems :: "backend \<Rightarrow> world \<Rightarrow> world" where
  "loadCartItems b w =
     (case localStorage w of
        None \<Rightarrow> w\<lparr>cartItems := []\<rparr>
      | Some cart \<Rightarrow>
          (let mealIds = map fst cart
           in if length mealIds = 0 then w\<lparr>cartItems := []\<rparr>
              else
                (let (r, w1) = select_meals_in b mealIds w
                 in case error r of
                      Some message \<Rightarrow>
                        emit \<lparr>title = ''error loading cart'', description = Some message,
                              variant = Some ''destructive''\<rparr> w1
                    | None \<Rightarrow>
                        w1\<lparr>cartItems :=
                             map (\<lambda>meal.
                                    \<lparr>calories = calories meal, protein = protein meal,
                                     carbs = carbs meal, fats = fats meal,
                                     id' = id' meal, name = name meal, price = price meal,
                                     quantity =
                                       (case map_of cart (id' meal) of
                                          Some q \<Rightarrow> q
                                        | None \<Rightarrow> NaN)\<rparr>)
                                 (case data r of Some rows \<Rightarrow> rows | None \<Rightarrow> [])\<rparr>)))"

text \<open>
  In \<open>loadCartItems\<close> the lookup \<^verbatim>\<open>cart[meal.id]\<close> of a key the cart does not hold would
  be \<^verbatim>\<open>undefined\<close>. The rows returned by \<open>select_meals_in\<close> all have a requested
  identifier, so that branch is never taken (\<open>loadCartItems_quantity\<close> below); it is
  given the value \<^verbatim>\<open>NaN\<close> that \<^verbatim>\<open>undefined\<close> has in arithmetic.

  \<^verbatim>\<open>removeFromCart\<close> and \<^verbatim>\<open>updateQuantity\<close> call the asynchronous \<^verbatim>\<open>loadCartItems\<close> without
  awaiting it: its request is answered after the caller has returned, so the caller's
  toast precedes whatever the reload emits. The model runs the reload to completion.
\<close>

definition removeFromCart :: "backend \<Rightarrow> string \<Rightarrow> world \<Rightarrow> world" where
  "removeFromCart b mealId w =
     (case localStorage w of
        None \<Rightarrow> w
      | Some cart \<Rightarrow>
          loadCartItems b
            (emit \<lparr>title = ''removed from cart'', description = None, variant = None\<rparr>
               (w\<lparr>localStorage := Some (AList.delete mealId cart)\<rparr>)))"

definition updateQuantity :: "backend \<Rightarrow> string \<Rightarrow> number \<Rightarrow> world \<Rightarrow> world" where
  "updateQuantity b mealId newQuantity w =
     (if lt newQuantity (Fin 1) then removeFromCart b mealId w
      else case localStorage w of
             None \<Rightarrow> w
           | Some cart \<Rightarrow>
               loadCartItems b (w\<lparr>localStorage := Some (AList.update mealId newQuantity cart)\<rparr>))"

definition totalPrice :: "CartItem list \<Rightarrow> number" where
  "totalPrice items =
     foldl (\<lambda>sum item. fadd sum (fmul (price item) (quantity item))) (Fin 0) items"

definition totalMacros :: "CartItem list \<Rightarrow> Macros" where
  "totalMacros items =
     foldl (\<lambda>acc item.
              \<lparr>calories = fadd (calories acc) (fmul (calories item) (quantity item)),
               protein = fadd (protein acc) (fmul (protein item) (quantity item)),
               carbs = fadd (carbs acc) (fmul (carbs item) (quantity item)),
               fats = fadd (fats acc) (fmul (fats item) (quantity item))\<rparr>)
           \<lparr>calories = Fin 0, protein = Fin 0, carbs = Fin 0, fats = Fin 0\<rparr> items"

definition handlePlaceOrder :: "backend \<Rightarrow> world \<Rightarrow> world" where
  "handlePlaceOrder b w =
     (if trim (deliveryAddress w) = [] then
        emit \<lparr>title = ''delivery address required'',
              description = Some ''please enter your delivery address'',
              variant = Some ''destructive''\<rparr> w
      else if length (cartItems w) = 0 then
        emit \<lparr>title = ''cart is empty'',
              description = Some ''add some meals to your cart first'',
              variant = Some ''destructive''\<rparr> w
      else
        (let (u, w1) = auth_getUser b (w\<lparr>loading := True\<rparr>)
         in case u of
              None \<Rightarrow> w1\<lparr>navigated := navigated w1 @ [''/auth'']\<rparr>
            | Some uid \<Rightarrow>
                (let (r, w2) =
                       insert_orders b
                         \<lparr>user_id = uid, total_price = totalPrice (cartItems w),
                          delivery_address = deliveryAddress w, status = ''pending'',
                          payment_status = ''pending''\<rparr> w1
                 in case (error r, data r) of
                      (None, Some order) \<Rightarrow>
                        (let orderItems =
                               map (\<lambda>item.
                                      \<lparr>order_id = orders_id order, meal_id = id' item,
                                       order_items_insert.quantity = quantity item,
                                       price_at_purchase = price item\<rparr>)
                                   (cartItems w);
                             (itemsError, w3) = insert_order_items b orderItems w2;
                             w4 = (case itemsError of
                                     Some message \<Rightarrow>
                                       emit \<lparr>title = ''error saving order items'',
                                             description = Some message,
                                             variant = Some ''destructive''\<rparr> w3
                                   | None \<Rightarrow>
                                       (emit \<lparr>title = ''order placed!'',
                                              description =
                                                Some ''your meal prep order has been confirmed'',
                                              variant = None\<rparr>
                                          (w3\<lparr>localStorage := None\<rparr>))
                                       \<lparr>navigated := navigated w3 @ [''/dashboard'']\<rparr>)
                         in w4\<lparr>loading := False\<rparr>)
                    | (orderError, _) \<Rightarrow>
                        (emit \<lparr>title = ''error placing order'',
                               description =
                                 Some (case orderError of
                                         Some message \<Rightarrow>
                                           if message = [] then ''unknown error'' else message
                                       | None \<Rightarrow> ''unknown error''),
                               variant = Some ''destructive''\<rparr> w2)
                        \<lparr>loading := False\<rparr>)))"

subsection \<open>Meals.tsx\<close>

definition Meals_mount :: "world \<Rightarrow> world" where
  \<comment> \<open>\<^verbatim>\<open>useState({})\<close> and the mount effect, which copies the stored cart into the state\<close>
  "Meals_mount w =
     (case localStorage w of
        None \<Rightarrow> w\<lparr>Meals_cart := []\<rparr>
      | Some savedCart \<Rightarrow> w\<lparr>Meals_cart := savedCart\<rparr>)"

definition addToCart :: "string \<Rightarrow> world \<Rightarrow> world" where
  "addToCart mealId w =
     (let newCart =
            AList.update mealId
              (fadd (case map_of (Meals_cart w) mealId of
                       Some q \<Rightarrow> if truthy q then q else Fin 0
                     | None \<Rightarrow> Fin 0)
                    (Fin 1))
              (Meals_cart w)
      in emit \<lparr>title = ''added to cart'',
               description = Some ''meal has been added to your cart'', variant = None\<rparr>
           (w\<lparr>Meals_cart := newCart, localStorage := Some newCart\<rparr>))"

subsection \<open>Views used in the statements\<close>

definition stored_cart :: "world \<Rightarrow> cart" where
  \<comment> \<open>the Cart Store's \<^verbatim>\<open>get()\<close>: an absent entry is the empty cart, as both pages read it\<close>
  "stored_cart w = (case localStorage w of None \<Rightarrow> [] | Some c \<Rightarrow> c)"

definition lines_of :: "world \<Rightarrow> string \<Rightarrow> order_items_insert list" where
  \<comment> \<open>the rows of \<^verbatim>\<open>order_items\<close> that reference an order\<close>
  "lines_of w oid = filter (\<lambda>r. order_id r = oid) (order_items w)"

definition materialize :: "cart \<Rightarrow> Meal list \<Rightarrow> CartItem list" where
  \<comment> \<open>the line items \<open>loadCartItems\<close> builds from a cart and the readable rows of \<^verbatim>\<open>meals\<close>
      (\<open>cartItems_loadCartItems\<close> below)\<close>
  "materialize cart rows =
     map (\<lambda>meal.
            \<lparr>calories = calories meal, protein = protein meal,
             carbs = carbs meal, fats = fats meal,
             id' = id' meal, name = name meal, price = price meal,
             quantity = (case map_of cart (id' meal) of Some q \<Rightarrow> q | None \<Rightarrow> NaN)\<rparr>)
         (filter (\<lambda>m. id' m \<in> set (map fst cart)) rows)"

text \<open>The toasts of the checkout, by the outcome they report.\<close>

definition missing_address :: toast where
  "missing_address =
     \<lparr>title = ''delivery address required'',
      description = Some ''please enter your delivery address'',
      variant = Some ''destructive''\<rparr>"

definition empty_cart :: toast where
  "empty_cart =
     \<lparr>title = ''cart is empty'', description = Some ''add some meals to your cart first'',
      variant = Some ''destructive''\<rparr>"

definition error_placing_order :: "string \<Rightarrow> toast" where
  \<comment> \<open>the storage error of the order write, \<^verbatim>\<open>"unknown error"\<close> for an empty message\<close>
  "error_placing_order message =
     \<lparr>title = ''error placing order'',
      description = Some (if message = [] then ''unknown error'' else message),
      variant = Some ''destructive''\<rparr>"

definition error_saving_order_items :: "string \<Rightarrow> toast" where
  "error_saving_order_items message =
     \<lparr>title = ''error saving order items'', description = Some message,
      variant = Some ''destructive''\<rparr>"

definition order_placed :: toast where
  "order_placed =
     \<lparr>title = ''order placed!'', description = Some ''your meal prep order has been confirmed'',
      variant = None\<rparr>"

definition order_of :: "world \<Rightarrow> string \<Rightarrow> string \<Rightarrow> orders_row" where
  \<comment> \<open>the order row that a submission from state \<open>w\<close> writes\<close>
  "order_of w uid oid =
     \<lparr>user_id = uid, total_price = totalPrice (cartItems w),
      delivery_address = deliveryAddress w, status = ''pending'',
      payment_status = ''pending'', orders_id = oid\<rparr>"

definition order_request :: "world \<Rightarrow> string \<Rightarrow> request" where
  "order_request w uid =
     Insert_orders
       \<lparr>user_id = uid, total_price = totalPrice (cartItems w),
        delivery_address = deliveryAddress w, status = ''pending'',
        payment_status = ''pending''\<rparr>"

definition line_of :: "string \<Rightarrow> CartItem \<Rightarrow> order_items_insert" where
  \<comment> \<open>the order line written for a line item\<close>
  "line_of oid item =
     \<lparr>order_id = oid, meal_id = id' item, order_items_insert.quantity = quantity item,
      price_at_purchase = price item\<rparr>"

definition exact_total :: "(CartItem \<Rightarrow> number) \<Rightarrow> CartItem list \<Rightarrow> rat" where
  \<comment> \<open>the sum of value times quantity over the line items, in exact arithmetic\<close>
  "exact_total f items = (\<Sum>item\<leftarrow>items. rat_of (f item) * rat_of (quantity item))"

definition whole :: "(CartItem \<Rightarrow> number) \<Rightarrow> CartItem list \<Rightarrow> bool" where
  \<comment> \<open>a field whose values are whole numbers and whose exact total is at most \<open>2\<^sup>5\<^sup>3\<close>\<close>
  "whole f items = (list_all (\<lambda>item. is_natural (f item)) items \<and> exact_total f items \<le> 2 ^ 53)"

subsection \<open>Example data\<close>

definition meal_A :: Meal where
  \<comment> \<open>the first sample row of the migration: 450 kcal, 45/40/12 g, RM 18.90\<close>
  "meal_A =
     \<lparr>calories = Fin 450, protein = Fin 45, carbs = Fin 40, fats = Fin 12,
      id' = ''A'', name = ''grilled chicken bowl'', price = round_double (189 / 10)\<rparr>"

definition item_of :: "string \<Rightarrow> rat \<Rightarrow> rat \<Rightarrow> rat \<Rightarrow> CartItem" where
  \<comment> \<open>a line item with the given identifier, decimal price, calories and quantity\<close>
  "item_of i p c q =
     \<lparr>calories = Fin c, protein = Fin 0, carbs = Fin 0, fats = Fin 0,
      id' = i, name = i, price = round_double p, quantity = Fin q\<rparr>"

definition dimes :: "CartItem list" where
  \<comment> \<open>one portion each of three meals priced 0.10, 0.20 and 0.30\<close>
  "dimes = [item_of ''a'' (1 / 10) 0 1, item_of ''b'' (2 / 10) 0 1, item_of ''c'' (3 / 10) 0 1]"

definition two_meals :: "CartItem list" where
  \<comment> \<open>two portions at 19 and 450 kcal, one portion at 25 and 520 kcal\<close>
  "two_meals = [item_of ''a'' 19 450 2, item_of ''b'' 25 520 1]"

definition world0 :: world where
  \<comment> \<open>a fresh browser and empty tables\<close>
  "world0 =
     \<lparr>localStorage = None, Meals_cart = [], cartItems = [], loading = False,
      deliveryAddress = [], toasts = [], navigated = [], requests = [], orders = [],
      order_items = []\<rparr>"

definition backend0 :: backend where
  \<comment> \<open>a storage service that accepts everything for user \<open>u1\<close>\<close>
  "backend0 =
     \<lparr>meals = [meal_A], meals_error = None, user = Some ''u1'',
      orders_verdict = Inr ''o1'', order_items_verdict = None\<rparr>"

definition world_stored :: world where
  \<comment> \<open>the cart \<^verbatim>\<open>{A: 2}\<close> in the store and an address typed in, before the cart is loaded\<close>
  "world_stored =
     world0\<lparr>localStorage := Some [(''A'', Fin 2)],
            deliveryAddress := utf16 ''1 Jalan Ampang''\<rparr>"

definition item_A :: CartItem where
  \<comment> \<open>two portions of \<open>meal_A\<close>\<close>
  "item_A =
     \<lparr>calories = Fin 450, protein = Fin 45, carbs = Fin 40, fats = Fin 12,
      id' = ''A'', name = ''grilled chicken bowl'', price = round_double (189 / 10),
      quantity = Fin 2\<rparr>"

definition world_A :: world where
  \<comment> \<open>the checkout page showing the cart \<^verbatim>\<open>{A: 2}\<close>, with an address typed in\<close>
  "world_A =
     world0\<lparr>localStorage := Some [(''A'', Fin 2)], cartItems := [item_A],
            deliveryAddress := utf16 ''1 Jalan Ampang''\<rparr>"

definition world_stale :: world where
  \<comment> \<open>the Meals page mounted on the cart \<^verbatim>\<open>{A: 2}\<close>; since then another tab has stored
      five portions of \<open>C\<close>\<close>
  "world_stale =
     world0\<lparr>localStorage := Some [(''A'', Fin 2), (''C'', Fin 5)],
            Meals_cart := [(''A'', Fin 2)]\<rparr>"

section \<open>Rounding\<close>

text \<open>
  \<open>floor_log2\<close> finds the binade of a positive rational; from there a value that lies in
  the normal range is rounded on the grid of its binade, and whole numbers up to
  \<open>2\<^sup>5\<^sup>3\<close> are representable.
\<close>

lemma floor_log2_bounds:
  assumes "0 < x"
  shows "2 powi (floor_log2 x) \<le> x \<and> x < 2 powi (floor_log2 x + 1)"
proof -
  obtain p q where pq: "quotient_of x = (p, q)" by (cases "quotient_of x")
  have q: "0 < q" using pq quotient_of_denom_pos by blast
  have x: "x = of_int p / of_int q" using pq quotient_of_div by blast
  have p: "0 < p" using assms q x by (simp add: zero_less_divide_iff)
  let ?a = "bitlen p" and ?b = "bitlen q"
  have a1: "1 \<le> ?a" using p by (simp add: bitlen_alt_def)
  have b1: "1 \<le> ?b" using q by (simp add: bitlen_alt_def)
  have pa: "(2::rat) powi (?a - 1) \<le> of_int p" "of_int p < (2::rat) powi ?a"
  proof -
    have "(of_int (2 ^ nat (?a - 1)) :: rat) \<le> of_int p"
      using bitlen_bounds[OF p] by (simp only: of_int_le_iff)
    then show "(2::rat) powi (?a - 1) \<le> of_int p"
      using a1 by (simp add: power_int_nonneg_exp)
    have "(of_int p :: rat) < of_int (2 ^ nat ?a)"
      using bitlen_bounds[OF p] by (simp only: of_int_less_iff)
    then show "of_int p < (2::rat) powi ?a"
      using a1 by (simp add: power_int_nonneg_exp)
  qed
  have qb: "(2::rat) powi (?b - 1) \<le> of_int q" "of_int q < (2::rat) powi ?b"
  proof -
    have "(of_int (2 ^ nat (?b - 1)) :: rat) \<le> of_int q"
      using bitlen_bounds[OF q] by (simp only: of_int_le_iff)
    then show "(2::rat) powi (?b - 1) \<le> of_int q"
      using b1 by (simp add: power_int_nonneg_exp)
    have "(of_int q :: rat) < of_int (2 ^ nat ?b)"
      using bitlen_bounds[OF q] by (simp only: of_int_less_iff)
    then show "of_int q < (2::rat) powi ?b"
      using b1 by (simp add: power_int_nonneg_exp)
  qed
  have pos: "\<And>k. (0::rat) < 2 powi k" by simp
  have "x < 2 powi ?a / 2 powi (?b - 1)"
    unfolding x using p q pa qb pos by (intro frac_less) simp_all
  also have "\<dots> = 2 powi (?a - ?b + 1)"
    by (simp add: power_int_diff power_int_add)
  finally have up: "x < 2 powi (?a - ?b + 1)" .
  have "2 powi (?a - ?b - 1) = (2::rat) powi (?a - 1) / 2 powi ?b"
    by (simp add: power_int_diff)
  also have "\<dots> < x"
    unfolding x using p q pa qb pos by (intro frac_less2) simp_all
  finally have lo: "2 powi (?a - ?b - 1) < x" .
  have eq: "?a - ?b - 1 + 1 = ?a - ?b" by simp
  show ?thesis
    unfolding floor_log2_def pq using up lo by (auto simp: Let_def eq)
qed


lemma floor_log2_unique:
  assumes "0 < x" and "2 powi k \<le> x" and "x < 2 powi (k + 1)"
  shows "floor_log2 x = k"
proof -
  let ?f = "floor_log2 x"
  have b: "2 powi ?f \<le> x" "x < 2 powi (?f + 1)"
    using floor_log2_bounds[OF assms(1)] by simp_all
  have "\<not> k + 1 \<le> ?f"
  proof
    assume "k + 1 \<le> ?f"
    then have "(2::rat) powi (k + 1) \<le> 2 powi ?f" by (intro power_int_increasing) simp_all
    with b(1) assms(3) show False by simp
  qed
  moreover have "\<not> ?f + 1 \<le> k"
  proof
    assume "?f + 1 \<le> k"
    then have "(2::rat) powi (?f + 1) \<le> 2 powi k" by (intro power_int_increasing) simp_all
    with b(2) assms(2) show False by simp
  qed
  ultimately show ?thesis by simp
qed

lemma round_half_even_of_int: "round_half_even (of_int m) = m"
  by (simp add: round_half_even_def)

lemma round_double_normal:
  assumes "2 ^ 52 \<le> y" and "y < 2 ^ 53" and "- 1074 \<le> e"
  shows "round_double (y * 2 powi e) =
           (let r = of_int (round_half_even y) * 2 powi e
            in if 2 ^ 1024 \<le> r then PosInf else Fin r)"
proof -
  let ?x = "y * 2 powi e"
  have pe: "(0::rat) < 2 powi e" by simp
  have y0: "0 < y" using assms(1) by (simp add: less_le_trans [of 0 "2 ^ 52"])
  have x0: "0 < ?x" using y0 pe by simp
  have lo: "2 powi (52 + e) \<le> ?x"
    using assms(1) pe by (simp add: power_int_add)
  have hi: "?x < 2 powi (52 + e + 1)"
  proof -
    have "?x < 2 ^ 53 * 2 powi e" using assms(2) pe by simp
    also have "\<dots> = 2 powi (52 + e + 1)" by (simp add: power_int_add)
    finally show ?thesis .
  qed
  have fl: "floor_log2 \<bar>?x\<bar> = 52 + e"
    using floor_log2_unique[OF x0 lo hi] x0 by simp
  have ex: "max (- 1074) (floor_log2 \<bar>?x\<bar> - 52) = e"
    using assms(3) by (simp add: fl)
  have q: "?x / 2 powi e = y" using pe by simp
  have "0 \<le> \<lfloor>y\<rfloor>" using y0 by simp
  then have r0: "0 \<le> round_half_even y" by (simp add: round_half_even_def Let_def)
  then have "(0::rat) \<le> of_int (round_half_even y) * 2 powi e" using pe by simp
  then have nn: "\<not> of_int (round_half_even y) * 2 powi e \<le> - ((2::rat) ^ 1024)"
    by (simp add: not_le less_le_trans [of _ 0])
  show ?thesis
    unfolding round_double_def using x0 nn by (simp only: ex q Let_def) auto
qed

lemma round_double_of_nat:
  assumes "n \<le> 2 ^ 53"
  shows "round_double (of_nat n) = Fin (of_nat n)"
proof (cases "n = 0")
  case True
  then show ?thesis by (simp add: round_double_def)
next
  case False
  show ?thesis
  proof (cases "n = 2 ^ 53")
    case True
    have "round_double (2 ^ 52 * 2 powi 1) = Fin (2 ^ 53)"
      by (subst round_double_normal) (simp_all add: round_half_even_def)
    then show ?thesis using True by simp
  next
    case ne: False
    let ?b = "bitlen (int n)"
    define j where "j = nat (53 - ?b)"
    have n0: "0 < int n" using False by simp
    have "n < 2 ^ 53" using assms ne by simp
    then have "int n < int (2 ^ 53)" by (simp only: of_nat_less_iff)
    then have lt: "int n < 2 ^ 53" by simp
    have b1: "1 \<le> ?b" using n0 by (simp add: bitlen_alt_def)
    have b53: "?b \<le> 53" using lt n0 by (simp add: bitlen_le_iff_power)
    have bj: "?b - 1 + int j = 52" "?b + int j = 53" using b1 b53 by (simp_all add: j_def)
    let ?m = "int n * 2 ^ j"
    have A: "2 ^ nat (?b - 1) * 2 ^ j \<le> ?m" and B: "?m < 2 ^ nat ?b * 2 ^ j"
      using bitlen_bounds[OF n0] by simp_all
    have "nat (?b - 1) + j = 52" "nat ?b + j = 53" using bj b1 by linarith+
    then have E: "(2::int) ^ nat (?b - 1) * 2 ^ j = 2 ^ 52" "(2::int) ^ nat ?b * 2 ^ j = 2 ^ 53"
      by (simp_all only: power_add [symmetric])
    have m: "2 ^ 52 \<le> ?m" "?m < 2 ^ 53"
      using A B unfolding E by blast+
    have my: "(2::rat) ^ 52 \<le> of_int ?m" "(of_int ?m :: rat) < 2 ^ 53"
    proof -
      have "(of_int (2 ^ 52) :: rat) \<le> of_int ?m" using m(1) by (simp only: of_int_le_iff)
      then show "(2::rat) ^ 52 \<le> of_int ?m" by simp
      have "(of_int ?m :: rat) < of_int (2 ^ 53)" using m(2) by (simp only: of_int_less_iff)
      then show "(of_int ?m :: rat) < 2 ^ 53" by simp
    qed
    have e: "- 1074 \<le> - int j" using b1 by (simp add: j_def)
    have unscale: "(of_int ?m :: rat) * 2 powi (- int j) = of_nat n"
      by (simp add: power_int_minus)
    have small: "\<not> (2::rat) ^ 1024 \<le> of_nat n"
    proof -
      have "(of_nat n :: rat) \<le> of_nat (2 ^ 53)" using assms by (simp only: of_nat_le_iff)
      then have "(of_nat n :: rat) \<le> 2 ^ 53" by simp
      moreover have "(2::rat) ^ 53 < 2 ^ 1024" by (intro power_strict_increasing) simp_all
      ultimately show ?thesis by simp
    qed
    have "round_double (of_int ?m * 2 powi (- int j)) =
            (let r = of_int (round_half_even (of_int ?m)) * 2 powi (- int j)
             in if 2 ^ 1024 \<le> r then PosInf else Fin r)"
      by (rule round_double_normal[OF my e])
    then show ?thesis
      using small by (simp only: round_half_even_of_int unscale Let_def if_False)
  qed
qed

lemma round_half_even_eqI:
  assumes "\<bar>y - of_int m\<bar> < 1 / 2 \<or> (even m \<and> \<bar>y - of_int m\<bar> = 1 / 2)"
  shows "round_half_even y = m"
proof -
  let ?f = "\<lfloor>y\<rfloor>"
  have fl: "of_int ?f \<le> y" "y < of_int ?f + 1" by linarith+
  from assms show ?thesis
  proof
    assume a: "\<bar>y - of_int m\<bar> < 1 / 2"
    then have "of_int m - 1 < y" "y < of_int m + 1" by linarith+
    then have "m - 1 \<le> ?f" "?f \<le> m"
      by (simp_all add: le_floor_iff floor_le_iff)
    then have "?f = m \<or> ?f = m - 1" by linarith
    then show ?thesis using a by (auto simp: round_half_even_def Let_def abs_if split: if_splits)
  next
    assume a: "even m \<and> \<bar>y - of_int m\<bar> = 1 / 2"
    have fl_half: "\<lfloor>of_int k + 1 / 2 :: rat\<rfloor> = k" for k
      by (rule floor_unique) simp_all
    from a have "y = of_int m + 1 / 2 \<or> y = of_int (m - 1) + 1 / 2"
      by (auto simp: abs_if split: if_splits)
    then show ?thesis
    proof
      assume "y = of_int m + 1 / 2"
      then show ?thesis using a by (simp add: round_half_even_def Let_def fl_half)
    next
      assume "y = of_int (m - 1) + 1 / 2"
      then show ?thesis using a by (simp add: round_half_even_def Let_def fl_half del: of_int_diff)
    qed
  qed
qed

lemma round_double_eqI:
  assumes "2 ^ 52 \<le> x / 2 powi e" and "x / 2 powi e < 2 ^ 53"
    and "- 1074 \<le> e" and "e \<le> 970"
    and "\<bar>x / 2 powi e - of_int m\<bar> < 1 / 2 \<or> (even m \<and> \<bar>x / 2 powi e - of_int m\<bar> = 1 / 2)"
  shows "round_double x = Fin (of_int m * 2 powi e)"
proof -
  let ?y = "x / 2 powi e"
  have pe: "(0::rat) < 2 powi e" by simp
  have x: "?y * 2 powi e = x" using pe by simp
  have m: "round_half_even ?y = m" by (rule round_half_even_eqI[OF assms(5)])
  have "of_int m < ?y + 1" using assms(5) by (auto simp: abs_if split: if_splits)
  then have "(of_int m :: rat) < of_int (2 ^ 53 + 1)" using assms(2) by simp
  then have "m < 2 ^ 53 + 1" by (simp only: of_int_less_iff)
  then have "m \<le> 2 ^ 53" by simp
  then have "(of_int m :: rat) \<le> of_int (2 ^ 53)" by (simp only: of_int_le_iff)
  then have m53: "(of_int m :: rat) \<le> 2 ^ 53" by simp
  have "(2::rat) powi e \<le> 2 powi 970" using assms(4) by (intro power_int_increasing) simp_all
  then have e970: "(2::rat) powi e \<le> 2 ^ 970" by simp
  have "of_int m * 2 powi e \<le> (2::rat) ^ 53 * 2 ^ 970"
    using m53 e970 pe by (intro mult_mono) simp_all
  also have "\<dots> = 2 ^ 1023" by (simp only: power_add [symmetric]) simp
  also have "\<dots> < (2::rat) ^ 1024" by (intro power_strict_increasing) simp_all
  finally have "of_int m * 2 powi e < (2::rat) ^ 1024" .
  then have small: "\<not> (2::rat) ^ 1024 \<le> of_int m * 2 powi e" by (simp only: not_le)
  have "round_double (?y * 2 powi e) =
          (let r = of_int (round_half_even ?y) * 2 powi e
           in if 2 ^ 1024 \<le> r then PosInf else Fin r)"
    by (rule round_double_normal[OF assms(1,2,3)])
  then show ?thesis using small by (simp only: x m Let_def if_False)
qed

text \<open>The decimal prices and sums of the examples, rounded.\<close>

lemma d189: "round_double (189 / 10) = Fin (5319877059831398 / 2 ^ 48)"
  using round_double_eqI[of "189 / 10" "- 48" 5319877059831398]
  by (simp add: power_int_minus)

lemma d378: "round_double (378 / 10) = Fin (5319877059831398 / 2 ^ 47)"
  using round_double_eqI[of "378 / 10" "- 47" 5319877059831398]
  by (simp add: power_int_minus)

lemma d189x2: "round_double (5319877059831398 / 2 ^ 48 * 2) = Fin (5319877059831398 / 2 ^ 47)"
  using round_double_eqI[of "5319877059831398 / 2 ^ 48 * 2" "- 47" 5319877059831398]
  by (simp add: power_int_minus)

lemma d378': "round_double (0 + 5319877059831398 / 2 ^ 47) = Fin (5319877059831398 / 2 ^ 47)"
  using round_double_eqI[of "5319877059831398 / 2 ^ 47" "- 47" 5319877059831398]
  by (simp add: power_int_minus)

lemma total_two_portions:
  "fadd (Fin 0) (fmul (round_double (189 / 10)) (Fin 2)) = round_double (378 / 10)"
  unfolding d189 d378 fmul.simps d189x2 fadd.simps d378' by (rule refl)

lemma d199: "round_double (199 / 10) = Fin (5601352036542054 / 2 ^ 48)"
  using round_double_eqI[of "199 / 10" "- 48" 5601352036542054]
  by (simp add: power_int_minus)

lemma d01: "round_double (1 / 10) = Fin (7205759403792794 / 2 ^ 56)"
  using round_double_eqI[of "1 / 10" "- 56" 7205759403792794]
  by (simp add: power_int_minus)

lemma d02: "round_double (2 / 10) = Fin (7205759403792794 / 2 ^ 55)"
  using round_double_eqI[of "2 / 10" "- 55" 7205759403792794]
  by (simp add: power_int_minus)

lemma d03: "round_double (3 / 10) = Fin (5404319552844595 / 2 ^ 54)"
  using round_double_eqI[of "3 / 10" "- 54" 5404319552844595]
  by (simp add: power_int_minus)

lemma e01: "round_double (7205759403792794 / 2 ^ 56 * 1) = Fin (7205759403792794 / 2 ^ 56)"
  using round_double_eqI[of "7205759403792794 / 2 ^ 56" "- 56" 7205759403792794]
  by (simp add: power_int_minus)

lemma e02: "round_double (7205759403792794 / 2 ^ 55 * 1) = Fin (7205759403792794 / 2 ^ 55)"
  using round_double_eqI[of "7205759403792794 / 2 ^ 55" "- 55" 7205759403792794]
  by (simp add: power_int_minus)

lemma e03: "round_double (5404319552844595 / 2 ^ 54 * 1) = Fin (5404319552844595 / 2 ^ 54)"
  using round_double_eqI[of "5404319552844595 / 2 ^ 54" "- 54" 5404319552844595]
  by (simp add: power_int_minus)

lemma z01: "round_double (0 + 7205759403792794 / 2 ^ 56) = Fin (7205759403792794 / 2 ^ 56)"
  using e01 by simp

lemma z03: "round_double (0 + 5404319552844595 / 2 ^ 54) = Fin (5404319552844595 / 2 ^ 54)"
  using e03 by simp

lemma s12:
  "round_double (7205759403792794 / 2 ^ 56 + 7205759403792794 / 2 ^ 55)
     = Fin (5404319552844596 / 2 ^ 54)"
  using round_double_eqI[of "7205759403792794 / 2 ^ 56 + 7205759403792794 / 2 ^ 55" "- 54"
      5404319552844596]
  by (simp add: power_int_minus)

lemma s123:
  "round_double (5404319552844596 / 2 ^ 54 + 5404319552844595 / 2 ^ 54)
     = Fin (5404319552844596 / 2 ^ 53)"
  using round_double_eqI[of "5404319552844596 / 2 ^ 54 + 5404319552844595 / 2 ^ 54" "- 53"
      5404319552844596]
  by (simp add: power_int_minus)

lemma s32:
  "round_double (5404319552844595 / 2 ^ 54 + 7205759403792794 / 2 ^ 55)
     = Fin (4503599627370496 / 2 ^ 53)"
  using round_double_eqI[of "5404319552844595 / 2 ^ 54 + 7205759403792794 / 2 ^ 55" "- 53"
      4503599627370496]
  by (simp add: power_int_minus)

lemma s321:
  "round_double (4503599627370496 / 2 ^ 53 + 7205759403792794 / 2 ^ 56)
     = Fin (5404319552844595 / 2 ^ 53)"
  using round_double_eqI[of "4503599627370496 / 2 ^ 53 + 7205759403792794 / 2 ^ 56" "- 53"
      5404319552844595]
  by (simp add: power_int_minus)

lemma round_double_19: "round_double 19 = Fin 19"
  using round_double_of_nat[of 19] by simp

lemma round_double_25: "round_double 25 = Fin 25"
  using round_double_of_nat[of 25] by simp


section \<open>The handlers\<close>

lemmas place_order_defs =
  handlePlaceOrder_def emit_def auth_getUser_def insert_orders_def insert_order_items_def Let_def

lemma localStorage_loadCartItems: "localStorage (loadCartItems b w) = localStorage w"
  by (simp add: loadCartItems_def select_meals_in_def emit_def Let_def split: option.splits)

lemma le_zero_lt_one: "le q (Fin 0) \<Longrightarrow> lt q (Fin 1)"
  by (cases q) simp_all

lemma stored_cart_removeFromCart:
  "stored_cart (removeFromCart b mealId w) = AList.delete mealId (stored_cart w)"
  by (simp add: removeFromCart_def stored_cart_def localStorage_loadCartItems emit_def
        split: option.splits)

lemma stored_cart_updateQuantity:
  "stored_cart (updateQuantity b mealId q w) =
     (if lt q (Fin 1) then AList.delete mealId (stored_cart w)
      else if localStorage w = None then stored_cart w
      else AList.update mealId q (stored_cart w))"
  by (simp add: updateQuantity_def stored_cart_removeFromCart)
     (simp add: stored_cart_def localStorage_loadCartItems split: option.splits)

lemma Meals_mount_in_sync: "Meals_cart (Meals_mount w) = stored_cart (Meals_mount w)"
  by (simp add: Meals_mount_def stored_cart_def split: option.splits)

lemma addToCart_in_sync: "Meals_cart (addToCart mealId w) = stored_cart (addToCart mealId w)"
  by (simp add: addToCart_def stored_cart_def emit_def Let_def)

lemma round_double_1: "round_double 1 = Fin 1"
  using round_double_of_nat[of 1] by simp

lemma trim_address_A: "trim (utf16 ''1 Jalan Ampang'') \<noteq> []"
  by (simp add: trim_def utf16_def is_white_space_def)

lemma cartItems_loadCartItems:
  assumes "localStorage w = Some cart" and "meals_error b = None"
  shows "cartItems (loadCartItems b w) = materialize cart (meals b)"
  using assms
  by (cases cart) (simp_all add: loadCartItems_def select_meals_in_def materialize_def Let_def)

lemma loadCartItems_ok:
  assumes "localStorage w = Some cart" and "meals_error b = None"
  shows "toasts (loadCartItems b w) = toasts w"
  using assms
  by (simp add: loadCartItems_def select_meals_in_def Let_def)

lemma materialize_delete:
  assumes "k \<notin> id' ` set rows"
  shows "materialize (AList.delete k cart) rows = materialize cart rows"
proof -
  have f: "filter (\<lambda>m. id' m \<in> set (map fst (AList.delete k cart))) rows
         = filter (\<lambda>m. id' m \<in> set (map fst cart)) rows"
    using assms by (intro filter_cong) (auto simp: delete_keys)
  have q: "map_of (AList.delete k cart) (id' m) = map_of cart (id' m)" if "m \<in> set rows" for m
    using assms that by (auto simp: delete_conv')
  show ?thesis
    unfolding materialize_def f using q by (intro map_cong) auto
qed

lemma id_materialize: "id' ` set (materialize cart rows) \<subseteq> id' ` set rows"
  by (auto simp: materialize_def)

lemma materialize_quantity:
  assumes "item \<in> set (materialize cart rows)"
  shows "map_of cart (id' item) = Some (quantity item)"
proof -
  from assms obtain meal :: Meal where m: "id' meal \<in> fst ` set cart"
    and i: "id' item = id' meal"
    and q: "quantity item = (case map_of cart (id' meal) of Some q \<Rightarrow> q | None \<Rightarrow> NaN)"
    by (force simp: materialize_def)
  from m obtain v where "map_of cart (id' meal) = Some v"
    by (cases "map_of cart (id' meal)") (auto simp: map_of_eq_None_iff)
  then show ?thesis using i q by simp
qed

lemma loadCartItems_quantity:
  assumes "localStorage w = Some cart" and "meals_error b = None"
    and "item \<in> set (cartItems (loadCartItems b w))"
  shows "map_of cart (id' item) = Some (quantity item)"
  using assms(3) unfolding cartItems_loadCartItems[OF assms(1,2)]
  by (rule materialize_quantity)

lemma loadCartItems_success:
  assumes "localStorage w = Some cart" and "cart \<noteq> []" and "meals_error b = None"
  shows "loadCartItems b w =
           w\<lparr>requests := requests w @ [Select_meals_in (map fst cart)],
             cartItems := materialize cart (meals b)\<rparr>"
  using assms
  by (simp add: loadCartItems_def select_meals_in_def materialize_def Let_def)

lemma materialize_Nil: "materialize [] rows = []"
  by (simp add: materialize_def)

lemma handlePlaceOrder_success:
  assumes "trim (deliveryAddress w) \<noteq> []" and "cartItems w \<noteq> []"
    and "user b = Some uid" and "orders_verdict b = Inr oid"
    and "order_items_verdict b = None"
  shows "handlePlaceOrder b w =
           w\<lparr>loading := False, localStorage := None,
             toasts := toasts w @ [order_placed],
             navigated := navigated w @ [''/dashboard''],
             requests := requests w @ [Auth_getUser, order_request w uid,
                           Insert_order_items (map (line_of oid) (cartItems w))],
             orders := orders w @ [order_of w uid oid],
             order_items := order_items w @ map (line_of oid) (cartItems w)\<rparr>"
  using assms
  by (simp add: place_order_defs order_placed_def order_request_def order_of_def line_of_def
        cong: map_cong)


section \<open>Totals\<close>

text \<open>
  On whole numbers the two folds are exact as long as the exact total stays within
  \<open>2\<^sup>5\<^sup>3\<close>: every product and every partial sum is then a whole number in that range,
  and rounding leaves it as it is.
\<close>

lemma is_natural_Fin: "is_natural (Fin r) \<longleftrightarrow> r \<in> \<nat>"
proof
  assume "is_natural (Fin r)"
  then have r: "0 \<le> r" "of_int \<lfloor>r\<rfloor> = r" by (simp_all add: is_natural_def)
  then have "0 \<le> \<lfloor>r\<rfloor>" by simp
  then have "(of_nat (nat \<lfloor>r\<rfloor>) :: rat) = of_int \<lfloor>r\<rfloor>" by (rule of_nat_nat)
  then have e: "r = of_nat (nat \<lfloor>r\<rfloor>)" using r(2) by (simp only:)
  show "r \<in> \<nat>" by (subst e) (rule of_nat_in_Nats)
next
  assume "r \<in> \<nat>"
  then obtain n where "r = of_nat n" by (rule Nats_cases)
  then show "is_natural (Fin r)" by (simp add: is_natural_def)
qed

lemma is_naturalE:
  assumes "is_natural n"
  obtains r where "n = Fin r" and "r \<in> \<nat>"
  using assms by (cases n) (simp_all add: is_natural_Fin, simp_all add: is_natural_def)

lemma round_double_natural:
  assumes "r \<in> \<nat>" and "r \<le> 2 ^ 53"
  shows "round_double r = Fin r"
proof -
  from assms(1) obtain n where n: "r = of_nat n" by (rule Nats_cases)
  have "(of_nat n :: rat) \<le> of_nat (2 ^ 53)" using assms(2) n by simp
  then have "n \<le> 2 ^ 53" by (simp only: of_nat_le_iff)
  then show ?thesis unfolding n by (rule round_double_of_nat)
qed

lemma exact_total_Cons:
  "exact_total f (x # xs) = rat_of (f x) * rat_of (quantity x) + exact_total f xs"
  by (simp add: exact_total_def)

lemma exact_total_nonneg:
  assumes "list_all (\<lambda>item. is_natural (f item) \<and> is_natural (quantity item)) items"
  shows "0 \<le> exact_total f items"
  using assms
proof (induction items)
  case Nil
  then show ?case by (simp add: exact_total_def)
next
  case (Cons x xs)
  from Cons.prems obtain p q where "f x = Fin p" "p \<in> \<nat>" "quantity x = Fin q" "q \<in> \<nat>"
    by (auto elim!: is_naturalE)
  then have "0 \<le> rat_of (f x) * rat_of (quantity x)"
    by (auto simp: Nats_altdef2)
  then show ?case using Cons by (simp add: exact_total_Cons)
qed

lemma foldl_exact:
  assumes "list_all (\<lambda>item. is_natural (f item) \<and> is_natural (quantity item)) items"
    and "a \<in> \<nat>" and "a + exact_total f items \<le> 2 ^ 53"
  shows "foldl (\<lambda>s item. fadd s (fmul (f item) (quantity item))) (Fin a) items
           = Fin (a + exact_total f items)"
  using assms
proof (induction items arbitrary: a)
  case Nil
  then show ?case by (simp add: exact_total_def)
next
  case (Cons x xs)
  from Cons.prems(1) obtain p q where
    pq: "f x = Fin p" "p \<in> \<nat>" "quantity x = Fin q" "q \<in> \<nat>"
    by (auto elim!: is_naturalE)
  have rest: "list_all (\<lambda>item. is_natural (f item) \<and> is_natural (quantity item)) xs"
    using Cons.prems(1) by simp
  have r0: "0 \<le> exact_total f xs" by (rule exact_total_nonneg[OF rest])
  have a0: "0 \<le> a" using Cons.prems(2) by (auto simp: Nats_altdef2)
  have pqN: "p * q \<in> \<nat>" using pq by simp
  have pq0: "0 \<le> p * q" using pqN by (auto simp: Nats_altdef2)
  have tot: "a + (p * q + exact_total f xs) \<le> 2 ^ 53"
    using Cons.prems(3) by (simp add: exact_total_Cons pq)
  have m: "round_double (p * q) = Fin (p * q)"
    using round_double_natural[OF pqN] tot r0 a0 by simp
  have aN: "a + p * q \<in> \<nat>" using Cons.prems(2) pqN by simp
  have s: "round_double (a + p * q) = Fin (a + p * q)"
    using round_double_natural[OF aN] tot r0 by simp
  have "foldl (\<lambda>s item. fadd s (fmul (f item) (quantity item))) (Fin (a + p * q)) xs
          = Fin (a + p * q + exact_total f xs)"
    using tot by (intro Cons.IH[OF rest aN]) (simp add: add.assoc)
  then show ?case
    by (simp add: m s exact_total_Cons pq add.assoc)
qed

lemma totalPrice_exact:
  assumes "list_all (\<lambda>item. is_natural (quantity item)) items" and "whole price items"
  shows "totalPrice items = Fin (exact_total price items)"
proof -
  have "list_all (\<lambda>item. is_natural (price item) \<and> is_natural (quantity item)) items"
    using assms by (simp add: whole_def list_all_iff)
  from foldl_exact[OF this, of 0] assms(2) show ?thesis
    by (simp add: totalPrice_def whole_def)
qed

lemma totalMacros_fields:
  "calories (foldl (\<lambda>acc item.
              \<lparr>calories = fadd (calories acc) (fmul (calories item) (quantity item)),
               protein = fadd (protein acc) (fmul (protein item) (quantity item)),
               carbs = fadd (carbs acc) (fmul (carbs item) (quantity item)),
               fats = fadd (fats acc) (fmul (fats item) (quantity item))\<rparr>) acc items)
     = foldl (\<lambda>s item. fadd s (fmul (calories item) (quantity item))) (calories acc) items"
  "protein (foldl (\<lambda>acc item.
              \<lparr>calories = fadd (calories acc) (fmul (calories item) (quantity item)),
               protein = fadd (protein acc) (fmul (protein item) (quantity item)),
               carbs = fadd (carbs acc) (fmul (carbs item) (quantity item)),
               fats = fadd (fats acc) (fmul (fats item) (quantity item))\<rparr>) acc items)
     = foldl (\<lambda>s item. fadd s (fmul (protein item) (quantity item))) (protein acc) items"
  "carbs (foldl (\<lambda>acc item.
              \<lparr>calories = fadd (calories acc) (fmul (calories item) (quantity item)),
               protein = fadd (protein acc) (fmul (protein item) (quantity item)),
               carbs = fadd (carbs acc) (fmul (carbs item) (quantity item)),
               fats = fadd (fats acc) (fmul (fats item) (quantity item))\<rparr>) acc items)
     = foldl (\<lambda>s item. fadd s (fmul (carbs item) (quantity item))) (carbs acc) items"
  "fats (foldl (\<lambda>acc item.
              \<lparr>calories = fadd (calories acc) (fmul (calories item) (quantity item)),
               protein = fadd (protein acc) (fmul (protein item) (quantity item)),
               carbs = fadd (carbs acc) (fmul (carbs item) (quantity item)),
               fats = fadd (fats acc) (fmul (fats item) (quantity item))\<rparr>) acc items)
     = foldl (\<lambda>s item. fadd s (fmul (fats item) (quantity item))) (fats acc) items"
  for acc :: Macros and items :: "CartItem list"
  by (induction items arbitrary: acc) simp_all

lemma totalMacros_exact:
  assumes "list_all (\<lambda>item. is_natural (quantity item)) items"
  shows "whole calories items \<Longrightarrow> calories (totalMacros items) = Fin (exact_total calories items)"
    and "whole protein items \<Longrightarrow> protein (totalMacros items) = Fin (exact_total protein items)"
    and "whole carbs items \<Longrightarrow> carbs (totalMacros items) = Fin (exact_total carbs items)"
    and "whole fats items \<Longrightarrow> fats (totalMacros items) = Fin (exact_total fats items)"
proof -
  have *: "whole f items \<Longrightarrow>
        foldl (\<lambda>s item. fadd s (fmul (f item) (quantity item))) (Fin 0) items
          = Fin (exact_total f items)" for f
  proof -
    assume w: "whole f items"
    have "list_all (\<lambda>item. is_natural (f item) \<and> is_natural (quantity item)) items"
      using assms w by (simp add: whole_def list_all_iff)
    from foldl_exact[OF this, of 0] w show ?thesis by (simp add: whole_def)
  qed
  show "whole calories items \<Longrightarrow> calories (totalMacros items) = Fin (exact_total calories items)"
    using *[of calories] by (simp add: totalMacros_def totalMacros_fields)
  show "whole protein items \<Longrightarrow> protein (totalMacros items) = Fin (exact_total protein items)"
    using *[of protein] by (simp add: totalMacros_def totalMacros_fields)
  show "whole carbs items \<Longrightarrow> carbs (totalMacros items) = Fin (exact_total carbs items)"
    using *[of carbs] by (simp add: totalMacros_def totalMacros_fields)
  show "whole fats items \<Longrightarrow> fats (totalMacros items) = Fin (exact_total fats items)"
    using *[of fats] by (simp add: totalMacros_def totalMacros_fields)
qed

lemma exact_total_mset:
  assumes "mset items' = mset items"
  shows "exact_total f items' = exact_total f items"
proof -
  have "exact_total f xs = sum_mset (image_mset (\<lambda>item. rat_of (f item) * rat_of (quantity item)) (mset xs))" for xs
    by (simp add: exact_total_def flip: sum_mset_sum_list)
  then show ?thesis using assms by simp
qed

lemma list_all_mset:
  assumes "mset items' = mset items"
  shows "list_all P items' = list_all P items"
  using mset_eq_setD[OF assms] by (simp add: list_all_iff)

lemma whole_mset:
  assumes "mset items' = mset items"
  shows "whole f items' = whole f items"
  by (simp add: whole_def exact_total_mset[OF assms] list_all_mset[OF assms])

lemma item_of_sel:
  "price (item_of i p c q) = round_double p" "quantity (item_of i p c q) = Fin q"
  "calories (item_of i p c q) = Fin c"
  by (simp_all add: item_of_def)

lemma totalPrice_dimes: "totalPrice dimes = Fin (5404319552844596 / 2 ^ 53)"
  unfolding totalPrice_def dimes_def foldl.simps item_of_sel d01 d02 d03 fmul.simps
    e01 e02 e03 fadd.simps z01 s12 s123
  by (rule refl)

lemma totalPrice_rev_dimes: "totalPrice (rev dimes) = Fin (5404319552844595 / 2 ^ 53)"
  unfolding totalPrice_def dimes_def rev.simps append.simps foldl.simps item_of_sel
    d01 d02 d03 fmul.simps e01 e02 e03 fadd.simps z03 s32 s321
  by (rule refl)

lemma exact_total_dimes:
  "exact_total price dimes
     = 7205759403792794 / 2 ^ 56 + 7205759403792794 / 2 ^ 55 + 5404319552844595 / 2 ^ 54"
  unfolding exact_total_def dimes_def list.map sum_list.Cons sum_list.Nil item_of_sel
    d01 d02 d03 rat_of.simps
  by simp


section \<open>The claims\<close>

text \<open>
  C1. The cart \<^verbatim>\<open>{A: 2}\<close> is in the store, the catalog row with identifier \<open>A\<close> has price
  18.90 and 450 kcal, 45, 40 and 12 g, the read of the catalog succeeds, the address is
  not empty after trimming, a user is signed in and both writes are accepted. Loading
  the cart and submitting then adds exactly one row to \<^verbatim>\<open>orders\<close>, with total price 37.80
  and both statuses pending, adds exactly one row to \<^verbatim>\<open>order_items\<close>, with quantity 2,
  price 18.90 and the identifier of that order, and removes the cart from the store.
  The prices are the binary64 values of the decimals; doubling 18.90 is exact.
\<close>

theorem C1_end_to_end:
  assumes "localStorage w0 = Some [(a, Fin 2)]" and "meals_error b = None"
    and "filter (\<lambda>m. id' m = a) (meals b) =
           [\<lparr>calories = Fin 450, protein = Fin 45, carbs = Fin 40, fats = Fin 12,
             id' = a, name = n, price = round_double (189 / 10)\<rparr>]"
    and "trim (deliveryAddress w0) \<noteq> []"
    and "user b = Some uid" and "orders_verdict b = Inr oid"
    and "order_items_verdict b = None"
  shows "orders (handlePlaceOrder b (loadCartItems b w0)) =
           orders w0 @
           [\<lparr>user_id = uid, total_price = round_double (378 / 10),
             delivery_address = deliveryAddress w0, status = ''pending'',
             payment_status = ''pending'', orders_id = oid\<rparr>]
       \<and> order_items (handlePlaceOrder b (loadCartItems b w0)) =
           order_items w0 @
           [\<lparr>order_id = oid, meal_id = a, order_items_insert.quantity = Fin 2,
             price_at_purchase = round_double (189 / 10)\<rparr>]
       \<and> localStorage (handlePlaceOrder b (loadCartItems b w0)) = None
       \<and> stored_cart (handlePlaceOrder b (loadCartItems b w0)) = []"
proof -
  let ?item = "\<lparr>calories = Fin 450, protein = Fin 45, carbs = Fin 40, fats = Fin 12,
                id' = a, name = n, price = round_double (189 / 10), quantity = Fin 2\<rparr>"
  have mat: "materialize [(a, Fin 2)] (meals b) = [?item]"
    using assms(3) by (simp add: materialize_def)
  have l: "loadCartItems b w0 =
             w0\<lparr>requests := requests w0 @ [Select_meals_in [a]], cartItems := [?item]\<rparr>"
    using loadCartItems_success[OF assms(1) _ assms(2)] by (simp add: mat)
  have ad: "trim (deliveryAddress (loadCartItems b w0)) \<noteq> []" using assms(4) by (simp add: l)
  have c: "cartItems (loadCartItems b w0) \<noteq> []" by (simp add: l)
  have t: "totalPrice [?item] = round_double (378 / 10)"
    using total_two_portions by (simp add: totalPrice_def)
  show ?thesis
    unfolding handlePlaceOrder_success[OF ad c assms(5,6,7)]
    by (simp add: l order_of_def line_of_def t stored_cart_def)
qed

theorem C1_witness:
  "trim (deliveryAddress world_stored) \<noteq> []
   \<and> orders (handlePlaceOrder backend0 (loadCartItems backend0 world_stored)) =
       [\<lparr>user_id = ''u1'', total_price = round_double (378 / 10),
         delivery_address = utf16 ''1 Jalan Ampang'', status = ''pending'',
         payment_status = ''pending'', orders_id = ''o1''\<rparr>]
   \<and> order_items (handlePlaceOrder backend0 (loadCartItems backend0 world_stored)) =
       [\<lparr>order_id = ''o1'', meal_id = ''A'', order_items_insert.quantity = Fin 2,
         price_at_purchase = round_double (189 / 10)\<rparr>]
   \<and> stored_cart (handlePlaceOrder backend0 (loadCartItems backend0 world_stored)) = []"
proof -
  have l: "localStorage world_stored = Some [(''A'', Fin 2)]"
    by (simp add: world_stored_def)
  have e: "meals_error backend0 = None" by (simp add: backend0_def)
  have f: "filter (\<lambda>m. id' m = ''A'') (meals backend0) =
             [\<lparr>calories = Fin 450, protein = Fin 45, carbs = Fin 40, fats = Fin 12,
               id' = ''A'', name = ''grilled chicken bowl'', price = round_double (189 / 10)\<rparr>]"
    by (simp add: backend0_def meal_A_def)
  have a: "trim (deliveryAddress world_stored) \<noteq> []"
    using trim_address_A by (simp add: world_stored_def)
  have u: "user backend0 = Some ''u1''" by (simp add: backend0_def)
  have v: "orders_verdict backend0 = Inr ''o1''" by (simp add: backend0_def)
  have i: "order_items_verdict backend0 = None" by (simp add: backend0_def)
  have w: "orders world_stored = []" "order_items world_stored = []"
    "deliveryAddress world_stored = utf16 ''1 Jalan Ampang''"
    by (simp_all add: world_stored_def world0_def)
  from C1_end_to_end[OF l e f a u v i] show ?thesis
    using a by (simp add: w)
qed

text \<open>
  C2. The claim: when the delivery address is blank and there is no line item, the
  workflow reports both failures, missing address and empty cart. It does not: the address
  is checked first and the handler returns after its toast.
\<close>

theorem C2_counterexample:
  "trim (deliveryAddress world0) = [] \<and> length (cartItems world0) = 0
   \<and> toasts (handlePlaceOrder backend0 world0) = [missing_address]
   \<and> empty_cart \<notin> set (toasts (handlePlaceOrder backend0 world0))"
  by (simp add: handlePlaceOrder_def emit_def world0_def trim_def missing_address_def
        empty_cart_def)

text \<open>
  C2, as amended: a submission with no line item reports exactly one failure and changes
  nothing else: the missing address when the address is blank after trimming, the empty
  cart otherwise.
\<close>

theorem C2_first_failure_only:
  assumes "length (cartItems w) = 0"
  shows "handlePlaceOrder b w =
           w\<lparr>toasts := toasts w @
                [if trim (deliveryAddress w) = [] then missing_address else empty_cart]\<rparr>"
  using assms by (simp add: handlePlaceOrder_def emit_def missing_address_def empty_cart_def)

theorem C2_witness:
  "length (cartItems world0) = 0 \<and> trim (deliveryAddress world0) = []
   \<and> toasts (handlePlaceOrder backend0 world0) = toasts world0 @ [missing_address]"
proof -
  have h: "length (cartItems world0) = 0" by (simp add: world0_def)
  have t: "trim (deliveryAddress world0) = []" by (simp add: world0_def trim_def)
  from C2_first_failure_only[OF h, of backend0] show ?thesis
    using h t by simp
qed

text \<open>
  C3. For every state, whatever the cart holds: when the delivery address is empty after
  trimming, the submission only emits the missing-address toast. No request is sent, no
  row is inserted in either table and the stored cart is unchanged.
\<close>

theorem C3_missing_address:
  assumes "trim (deliveryAddress w) = []"
  shows "handlePlaceOrder b w = w\<lparr>toasts := toasts w @ [missing_address]\<rparr>
       \<and> requests (handlePlaceOrder b w) = requests w
       \<and> orders (handlePlaceOrder b w) = orders w
       \<and> order_items (handlePlaceOrder b w) = order_items w
       \<and> localStorage (handlePlaceOrder b w) = localStorage w"
  using assms by (simp add: handlePlaceOrder_def emit_def missing_address_def)

theorem C3_witness:
  "trim (deliveryAddress (world_A\<lparr>deliveryAddress := [0x20, 0x09, 0xA0]\<rparr>)) = []
   \<and> toasts (handlePlaceOrder backend0 (world_A\<lparr>deliveryAddress := [0x20, 0x09, 0xA0]\<rparr>))
       = [missing_address]
   \<and> requests (handlePlaceOrder backend0 (world_A\<lparr>deliveryAddress := [0x20, 0x09, 0xA0]\<rparr>))
       = []
   \<and> localStorage (handlePlaceOrder backend0 (world_A\<lparr>deliveryAddress := [0x20, 0x09, 0xA0]\<rparr>))
       = Some [(''A'', Fin 2)]"
proof -
  let ?w = "world_A\<lparr>deliveryAddress := [0x20, 0x09, 0xA0]\<rparr>"
  have h: "trim (deliveryAddress ?w) = []"
    by (simp add: trim_def is_white_space_def)
  from C3_missing_address[OF h, of backend0] show ?thesis
    using h by (simp add: world_A_def world0_def)
qed

text \<open>
  C4. When the address and the cart are valid, the user is signed in and the storage
  service rejects the order write, the submission reports the storage error, sends no
  request after the rejected write (no order line is written), leaves both tables and the
  stored cart as they were, and ends with \<open>loading\<close> reset.
\<close>

theorem C4_order_rejected:
  assumes "trim (deliveryAddress w) \<noteq> []" and "cartItems w \<noteq> []"
    and "user b = Some uid" and "orders_verdict b = Inl message"
  shows "handlePlaceOrder b w =
           w\<lparr>loading := False,
             toasts := toasts w @ [error_placing_order message],
             requests := requests w @ [Auth_getUser, order_request w uid]\<rparr>
       \<and> orders (handlePlaceOrder b w) = orders w
       \<and> order_items (handlePlaceOrder b w) = order_items w
       \<and> localStorage (handlePlaceOrder b w) = localStorage w"
  using assms
  by (simp add: place_order_defs error_placing_order_def order_request_def)

theorem C4_witness:
  "trim (deliveryAddress world_A) \<noteq> [] \<and> cartItems world_A \<noteq> []
   \<and> user (backend0\<lparr>orders_verdict := Inl ''permission denied''\<rparr>) = Some ''u1''
   \<and> toasts (handlePlaceOrder (backend0\<lparr>orders_verdict := Inl ''permission denied''\<rparr>) world_A)
       = [error_placing_order ''permission denied'']
   \<and> orders (handlePlaceOrder (backend0\<lparr>orders_verdict := Inl ''permission denied''\<rparr>) world_A) = []
   \<and> order_items (handlePlaceOrder (backend0\<lparr>orders_verdict := Inl ''permission denied''\<rparr>) world_A) = []
   \<and> localStorage (handlePlaceOrder (backend0\<lparr>orders_verdict := Inl ''permission denied''\<rparr>) world_A)
       = Some [(''A'', Fin 2)]"
proof -
  let ?b = "backend0\<lparr>orders_verdict := Inl ''permission denied''\<rparr>"
  have a: "trim (deliveryAddress world_A) \<noteq> []"
    using trim_address_A by (simp add: world_A_def)
  have c: "cartItems world_A \<noteq> []" by (simp add: world_A_def)
  have u: "user ?b = Some ''u1''" by (simp add: backend0_def)
  have v: "orders_verdict ?b = Inl ''permission denied''" by simp
  from C4_order_rejected[OF a c u v] show ?thesis
    using a c u by (simp add: world_A_def world0_def)
qed

text \<open>
  C5. When the order write is accepted and the batched write of the order lines is
  rejected, the stored cart is unchanged, the order row stays in the table, the only
  requests sent are the two writes after the sign-in check (nothing is deleted or undone),
  no order line was inserted, and, the identifier of the order being new, no order line
  refers to it.
\<close>

theorem C5_lines_rejected:
  assumes "trim (deliveryAddress w) \<noteq> []" and "cartItems w \<noteq> []"
    and "user b = Some uid" and "orders_verdict b = Inr oid"
    and "order_items_verdict b = Some message"
    and "oid \<notin> order_id ` set (order_items w)"
  shows "handlePlaceOrder b w =
           w\<lparr>loading := False,
             toasts := toasts w @ [error_saving_order_items message],
             requests := requests w @ [Auth_getUser, order_request w uid,
                           Insert_order_items (map (line_of oid) (cartItems w))],
             orders := orders w @ [order_of w uid oid]\<rparr>
       \<and> localStorage (handlePlaceOrder b w) = localStorage w
       \<and> orders (handlePlaceOrder b w) = orders w @ [order_of w uid oid]
       \<and> order_items (handlePlaceOrder b w) = order_items w
       \<and> lines_of (handlePlaceOrder b w) oid = []"
proof -
  have e: "handlePlaceOrder b w =
           w\<lparr>loading := False,
             toasts := toasts w @ [error_saving_order_items message],
             requests := requests w @ [Auth_getUser, order_request w uid,
                           Insert_order_items (map (line_of oid) (cartItems w))],
             orders := orders w @ [order_of w uid oid]\<rparr>"
    using assms(1-5)
    by (simp add: place_order_defs error_saving_order_items_def order_request_def
          order_of_def line_of_def cong: map_cong)
  have "filter (\<lambda>r. order_id r = oid) (order_items w) = []"
    using assms(6) by (auto simp: filter_empty_conv)
  then show ?thesis
    unfolding e by (simp add: lines_of_def)
qed

theorem C5_witness:
  "trim (deliveryAddress world_A) \<noteq> [] \<and> cartItems world_A \<noteq> []
   \<and> ''o1'' \<notin> order_id ` set (order_items world_A)
   \<and> localStorage (handlePlaceOrder (backend0\<lparr>order_items_verdict := Some ''timeout''\<rparr>) world_A)
       = Some [(''A'', Fin 2)]
   \<and> orders (handlePlaceOrder (backend0\<lparr>order_items_verdict := Some ''timeout''\<rparr>) world_A)
       = [order_of world_A ''u1'' ''o1'']
   \<and> order_items (handlePlaceOrder (backend0\<lparr>order_items_verdict := Some ''timeout''\<rparr>) world_A)
       = []
   \<and> lines_of (handlePlaceOrder (backend0\<lparr>order_items_verdict := Some ''timeout''\<rparr>) world_A) ''o1''
       = []"
proof -
  let ?b = "backend0\<lparr>order_items_verdict := Some ''timeout''\<rparr>"
  have a: "trim (deliveryAddress world_A) \<noteq> []"
    using trim_address_A by (simp add: world_A_def)
  have c: "cartItems world_A \<noteq> []" by (simp add: world_A_def)
  have u: "user ?b = Some ''u1''" by (simp add: backend0_def)
  have v: "orders_verdict ?b = Inr ''o1''" by (simp add: backend0_def)
  have i: "order_items_verdict ?b = Some ''timeout''" by simp
  have f: "''o1'' \<notin> order_id ` set (order_items world_A)"
    by (simp add: world_A_def world0_def)
  have "localStorage (handlePlaceOrder ?b world_A) = localStorage world_A
       \<and> orders (handlePlaceOrder ?b world_A) = orders world_A @ [order_of world_A ''u1'' ''o1'']
       \<and> order_items (handlePlaceOrder ?b world_A) = order_items world_A
       \<and> lines_of (handlePlaceOrder ?b world_A) ''o1'' = []"
    by (rule conjunct2[OF C5_lines_rejected[OF a c u v i f]])
  moreover have "localStorage world_A = Some [(''A'', Fin 2)]" "orders world_A = []"
    "order_items world_A = []"
    by (simp_all add: world_A_def world0_def)
  ultimately show ?thesis
    using a c f by simp
qed

text \<open>
  C6. The cart is loaded against the catalog of \<open>b0\<close> and then submitted, with every
  write accepted, to a storage service \<open>b\<close> whose catalog is arbitrary (the prices may
  have changed since). The order lines written carry, for each catalog row of \<open>b0\<close>
  whose identifier is in the cart, the price of that row as read at loading time. The
  only catalog read among the requests is the one made when the cart was loaded: the
  submission sends the sign-in check and the two writes.
\<close>

theorem C6_price_at_purchase:
  assumes "localStorage w0 = Some cart" and "meals_error b0 = None"
    and "trim (deliveryAddress w0) \<noteq> []" and "materialize cart (meals b0) \<noteq> []"
    and "user b = Some uid" and "orders_verdict b = Inr oid"
    and "order_items_verdict b = None"
  shows "order_items (handlePlaceOrder b (loadCartItems b0 w0)) =
           order_items w0 @
           map (\<lambda>meal. \<lparr>order_id = oid, meal_id = id' meal,
                         order_items_insert.quantity =
                           (case map_of cart (id' meal) of Some q \<Rightarrow> q | None \<Rightarrow> NaN),
                         price_at_purchase = price meal\<rparr>)
               (filter (\<lambda>m. id' m \<in> set (map fst cart)) (meals b0))
       \<and> requests (handlePlaceOrder b (loadCartItems b0 w0)) =
           requests w0 @
           [Select_meals_in (map fst cart), Auth_getUser,
            order_request (loadCartItems b0 w0) uid,
            Insert_order_items (map (line_of oid) (cartItems (loadCartItems b0 w0)))]"
proof -
  have ne: "cart \<noteq> []" using assms(4) by (auto simp: materialize_Nil)
  have l: "loadCartItems b0 w0 =
             w0\<lparr>requests := requests w0 @ [Select_meals_in (map fst cart)],
                cartItems := materialize cart (meals b0)\<rparr>"
    by (rule loadCartItems_success[OF assms(1) ne assms(2)])
  have a: "trim (deliveryAddress (loadCartItems b0 w0)) \<noteq> []" using assms(3) by (simp add: l)
  have c: "cartItems (loadCartItems b0 w0) \<noteq> []" using assms(4) by (simp add: l)
  have m: "map (line_of oid) (materialize cart (meals b0)) =
           map (\<lambda>meal. \<lparr>order_id = oid, meal_id = id' meal,
                         order_items_insert.quantity =
                           (case map_of cart (id' meal) of Some q \<Rightarrow> q | None \<Rightarrow> NaN),
                         price_at_purchase = price meal\<rparr>)
               (filter (\<lambda>m. id' m \<in> set (map fst cart)) (meals b0))"
    by (simp add: materialize_def line_of_def)
  show ?thesis
    unfolding handlePlaceOrder_success[OF a c assms(5,6,7)]
    by (simp add: l m)
qed

theorem C6_witness:
  "materialize [(''A'', Fin 2)] (meals backend0) \<noteq> []
   \<and> meals (backend0\<lparr>meals := [meal_A\<lparr>price := round_double (199 / 10)\<rparr>]\<rparr>) \<noteq> meals backend0
   \<and> order_items (handlePlaceOrder (backend0\<lparr>meals := [meal_A\<lparr>price := round_double (199 / 10)\<rparr>]\<rparr>)
                    (loadCartItems backend0 world_stored)) =
       [\<lparr>order_id = ''o1'', meal_id = ''A'', order_items_insert.quantity = Fin 2,
         price_at_purchase = round_double (189 / 10)\<rparr>]"
proof -
  let ?b = "backend0\<lparr>meals := [meal_A\<lparr>price := round_double (199 / 10)\<rparr>]\<rparr>"
  have l: "localStorage world_stored = Some [(''A'', Fin 2)]"
    by (simp add: world_stored_def)
  have e: "meals_error backend0 = None" by (simp add: backend0_def)
  have a: "trim (deliveryAddress world_stored) \<noteq> []"
    using trim_address_A by (simp add: world_stored_def)
  have m: "materialize [(''A'', Fin 2)] (meals backend0) \<noteq> []"
    by (simp add: materialize_def backend0_def meal_A_def)
  have u: "user ?b = Some ''u1''" by (simp add: backend0_def)
  have v: "orders_verdict ?b = Inr ''o1''" by (simp add: backend0_def)
  have i: "order_items_verdict ?b = None" by (simp add: backend0_def)
  have d: "round_double (199 / 10) \<noteq> round_double (189 / 10)"
    unfolding d199 d189 by simp
  have n: "meals ?b \<noteq> meals backend0"
    using d by (simp add: backend0_def meal_A_def)
  have "order_items (handlePlaceOrder ?b (loadCartItems backend0 world_stored)) =
           order_items world_stored @
           map (\<lambda>meal. \<lparr>order_id = ''o1'', meal_id = id' meal,
                         order_items_insert.quantity =
                           (case map_of [(''A'', Fin 2)] (id' meal) of Some q \<Rightarrow> q | None \<Rightarrow> NaN),
                         price_at_purchase = price meal\<rparr>)
               (filter (\<lambda>m. id' m \<in> set (map fst [(''A'', Fin 2)])) (meals backend0))"
    by (rule conjunct1[OF C6_price_at_purchase[OF l e a m u v i]])
  then show ?thesis
    using m n by (simp add: backend0_def meal_A_def world_stored_def world0_def)
qed

text \<open>
  C7. The claim: the price total and the four nutritional totals equal the sums of value
  times quantity, and are the same for every permutation of the line items. The totals
  are folds of binary64 additions, which round: for three meals priced 0.10, 0.20 and
  0.30 the price total is 0.6000000000000001 in that order and 0.6 in the reverse
  order, and the first is not the exact sum of the three products.
\<close>

theorem C7_counterexample:
  "mset (rev dimes) = mset dimes
   \<and> totalPrice dimes = Fin (5404319552844596 / 2 ^ 53)
   \<and> totalPrice (rev dimes) = Fin (5404319552844595 / 2 ^ 53)
   \<and> totalPrice (rev dimes) \<noteq> totalPrice dimes
   \<and> totalPrice dimes \<noteq> Fin (exact_total price dimes)"
  by (simp add: totalPrice_dimes totalPrice_rev_dimes exact_total_dimes)

text \<open>
  C7, as amended: for line items whose quantities are whole numbers, each of the five
  totals whose values are whole numbers and whose exact total is at most \<open>2\<^sup>5\<^sup>3\<close> equals
  that exact total, and is the same for every permutation of the line items.
\<close>

theorem C7_whole_number_totals:
  assumes "list_all (\<lambda>item. is_natural (quantity item)) items"
    and "mset items' = mset items"
  shows "(whole price items \<longrightarrow>
            totalPrice items = Fin (exact_total price items)
            \<and> totalPrice items' = totalPrice items)
       \<and> (whole calories items \<longrightarrow>
            calories (totalMacros items) = Fin (exact_total calories items)
            \<and> calories (totalMacros items') = calories (totalMacros items))
       \<and> (whole protein items \<longrightarrow>
            protein (totalMacros items) = Fin (exact_total protein items)
            \<and> protein (totalMacros items') = protein (totalMacros items))
       \<and> (whole carbs items \<longrightarrow>
            carbs (totalMacros items) = Fin (exact_total carbs items)
            \<and> carbs (totalMacros items') = carbs (totalMacros items))
       \<and> (whole fats items \<longrightarrow>
            fats (totalMacros items) = Fin (exact_total fats items)
            \<and> fats (totalMacros items') = fats (totalMacros items))"
proof -
  have q': "list_all (\<lambda>item. is_natural (quantity item)) items'"
    using assms(1) by (simp only: list_all_mset[OF assms(2)])
  note e = exact_total_mset[OF assms(2)]
  have p: "whole price items \<longrightarrow>
            totalPrice items = Fin (exact_total price items)
            \<and> totalPrice items' = totalPrice items"
  proof
    assume w: "whole price items"
    then have w': "whole price items'" by (simp only: whole_mset[OF assms(2)])
    show "totalPrice items = Fin (exact_total price items)
            \<and> totalPrice items' = totalPrice items"
      using totalPrice_exact[OF assms(1) w] totalPrice_exact[OF q' w'] by (simp only: e simp_thms)
  qed
  have c: "whole calories items \<longrightarrow>
            calories (totalMacros items) = Fin (exact_total calories items)
            \<and> calories (totalMacros items') = calories (totalMacros items)"
  proof
    assume w: "whole calories items"
    then have w': "whole calories items'" by (simp only: whole_mset[OF assms(2)])
    show "calories (totalMacros items) = Fin (exact_total calories items)
            \<and> calories (totalMacros items') = calories (totalMacros items)"
      using totalMacros_exact(1)[OF assms(1) w] totalMacros_exact(1)[OF q' w'] by (simp only: e simp_thms)
  qed
  have r: "whole protein items \<longrightarrow>
            protein (totalMacros items) = Fin (exact_total protein items)
            \<and> protein (totalMacros items') = protein (totalMacros items)"
  proof
    assume w: "whole protein items"
    then have w': "whole protein items'" by (simp only: whole_mset[OF assms(2)])
    show "protein (totalMacros items) = Fin (exact_total protein items)
            \<and> protein (totalMacros items') = protein (totalMacros items)"
      using totalMacros_exact(2)[OF assms(1) w] totalMacros_exact(2)[OF q' w'] by (simp only: e simp_thms)
  qed
  have b: "whole carbs items \<longrightarrow>
            carbs (totalMacros items) = Fin (exact_total carbs items)
            \<and> carbs (totalMacros items') = carbs (totalMacros items)"
  proof
    assume w: "whole carbs items"
    then have w': "whole carbs items'" by (simp only: whole_mset[OF assms(2)])
    show "carbs (totalMacros items) = Fin (exact_total carbs items)
            \<and> carbs (totalMacros items') = carbs (totalMacros items)"
      using totalMacros_exact(3)[OF assms(1) w] totalMacros_exact(3)[OF q' w'] by (simp only: e simp_thms)
  qed
  have f: "whole fats items \<longrightarrow>
            fats (totalMacros items) = Fin (exact_total fats items)
            \<and> fats (totalMacros items') = fats (totalMacros items)"
  proof
    assume w: "whole fats items"
    then have w': "whole fats items'" by (simp only: whole_mset[OF assms(2)])
    show "fats (totalMacros items) = Fin (exact_total fats items)
            \<and> fats (totalMacros items') = fats (totalMacros items)"
      using totalMacros_exact(4)[OF assms(1) w] totalMacros_exact(4)[OF q' w'] by (simp only: e simp_thms)
  qed
  from p c r b f show ?thesis by blast
qed

theorem C7_witness:
  "list_all (\<lambda>item. is_natural (quantity item)) two_meals
   \<and> mset (rev two_meals) = mset two_meals
   \<and> whole price two_meals \<and> whole calories two_meals
   \<and> totalPrice two_meals = Fin 63 \<and> totalPrice (rev two_meals) = Fin 63
   \<and> calories (totalMacros two_meals) = Fin 1420
   \<and> calories (totalMacros (rev two_meals)) = Fin 1420"
proof -
  have q: "list_all (\<lambda>item. is_natural (quantity item)) two_meals"
    by (simp add: two_meals_def item_of_def is_natural_def)
  have m: "mset (rev two_meals) = mset two_meals" by simp
  have ep: "exact_total price two_meals = 63"
    by (simp add: exact_total_def two_meals_def item_of_def round_double_19 round_double_25)
  have ec: "exact_total calories two_meals = 1420"
    by (simp add: exact_total_def two_meals_def item_of_def)
  have wp: "whole price two_meals"
    unfolding whole_def ep
    by (simp add: two_meals_def item_of_def is_natural_def round_double_19 round_double_25)
  have wc: "whole calories two_meals"
    unfolding whole_def ec
    by (simp add: two_meals_def item_of_def is_natural_def)
  from C7_whole_number_totals[OF q m] wp wc
  have "totalPrice two_meals = Fin (exact_total price two_meals)
      \<and> totalPrice (rev two_meals) = totalPrice two_meals
      \<and> calories (totalMacros two_meals) = Fin (exact_total calories two_meals)
      \<and> calories (totalMacros (rev two_meals)) = calories (totalMacros two_meals)"
    by blast
  then show ?thesis using q m wp wc by (simp add: ep ec)
qed

text \<open>
  C8. When the read of the catalog succeeds and no readable row has identifier \<open>k\<close>,
  loading the cart produces no line item for \<open>k\<close>; the line items, and with them the
  price total and the nutritional totals, are those of the cart without the entry for
  \<open>k\<close>; and no toast is emitted.
\<close>

theorem C8_unmatched_entry_dropped:
  assumes "localStorage w = Some cart" and "meals_error b = None"
    and "k \<notin> id' ` set (meals b)"
  shows "k \<notin> id' ` set (cartItems (loadCartItems b w))
       \<and> cartItems (loadCartItems b (w\<lparr>localStorage := Some (AList.delete k cart)\<rparr>))
           = cartItems (loadCartItems b w)
       \<and> totalPrice (cartItems (loadCartItems b (w\<lparr>localStorage := Some (AList.delete k cart)\<rparr>)))
           = totalPrice (cartItems (loadCartItems b w))
       \<and> totalMacros (cartItems (loadCartItems b (w\<lparr>localStorage := Some (AList.delete k cart)\<rparr>)))
           = totalMacros (cartItems (loadCartItems b w))
       \<and> toasts (loadCartItems b w) = toasts w"
proof -
  have c: "cartItems (loadCartItems b w) = materialize cart (meals b)"
    by (rule cartItems_loadCartItems[OF assms(1,2)])
  have d: "cartItems (loadCartItems b (w\<lparr>localStorage := Some (AList.delete k cart)\<rparr>))
         = materialize (AList.delete k cart) (meals b)"
    by (rule cartItems_loadCartItems) (simp_all add: assms(2))
  have n: "k \<notin> id' ` set (materialize cart (meals b))"
    using id_materialize[of cart "meals b"] assms(3) by blast
  show ?thesis
    using n loadCartItems_ok[OF assms(1,2)]
    by (simp add: c d materialize_delete[OF assms(3)])
qed

theorem C8_witness:
  "''Z'' \<notin> id' ` set (meals backend0)
   \<and> cartItems (loadCartItems backend0 (world0\<lparr>localStorage := Some [(''A'', Fin 2), (''Z'', Fin 5)]\<rparr>))
       = [item_A]
   \<and> cartItems (loadCartItems backend0
        (world0\<lparr>localStorage := Some (AList.delete ''Z'' [(''A'', Fin 2), (''Z'', Fin 5)])\<rparr>))
       = [item_A]
   \<and> toasts (loadCartItems backend0 (world0\<lparr>localStorage := Some [(''A'', Fin 2), (''Z'', Fin 5)]\<rparr>))
       = []"
proof -
  let ?w = "world0\<lparr>localStorage := Some [(''A'', Fin 2), (''Z'', Fin 5)]\<rparr>"
  have l: "localStorage ?w = Some [(''A'', Fin 2), (''Z'', Fin 5)]" by simp
  have e: "meals_error backend0 = None" by (simp add: backend0_def)
  have k: "''Z'' \<notin> id' ` set (meals backend0)" by (simp add: backend0_def meal_A_def)
  have "materialize [(''A'', Fin 2), (''Z'', Fin 5)] (meals backend0) = [item_A]"
    by (simp add: materialize_def backend0_def meal_A_def item_A_def)
  then have c: "cartItems (loadCartItems backend0 ?w) = [item_A]"
    by (simp only: cartItems_loadCartItems[OF l e])
  have t: "toasts ?w = []" by (simp add: world0_def)
  from C8_unmatched_entry_dropped[OF l e k] show ?thesis
    using k c t by simp
qed

text \<open>
  C9. For every state, identifier and quantity \<open>q \<le> 0\<close>, \<open>updateQuantity\<close> with \<open>q\<close> gives
  exactly the state that \<open>removeFromCart\<close> gives. Afterwards the stored cart has no entry
  for the identifier, and it holds a zero for no key that did not hold one before.
\<close>

theorem C9_nonpositive_quantity_removes:
  assumes "le q (Fin 0)"
  shows "updateQuantity b mealId q w = removeFromCart b mealId w
       \<and> map_of (stored_cart (updateQuantity b mealId q w)) mealId = None
       \<and> (\<forall>k. map_of (stored_cart (updateQuantity b mealId q w)) k = Some (Fin 0)
              \<longrightarrow> map_of (stored_cart w) k = Some (Fin 0))"
proof -
  have l: "lt q (Fin 1)" using assms by (rule le_zero_lt_one)
  then have e: "updateQuantity b mealId q w = removeFromCart b mealId w"
    by (simp add: updateQuantity_def)
  have "map_of (AList.delete mealId c) k = Some v \<Longrightarrow> map_of c k = Some v" for c :: cart and k v
    by (simp add: delete_conv' split: if_splits)
  then show ?thesis
    using e by (simp add: stored_cart_removeFromCart delete_conv')
qed

theorem C9_witness:
  "le (Fin 0) (Fin 0)
   \<and> updateQuantity backend0 ''A'' (Fin 0) world_A = removeFromCart backend0 ''A'' world_A
   \<and> stored_cart (updateQuantity backend0 ''A'' (Fin 0) world_A) = []"
proof -
  have h: "le (Fin 0) (Fin 0)" by simp
  from C9_nonpositive_quantity_removes[OF h, of backend0 "''A''" world_A] show ?thesis
    using h by (simp add: stored_cart_removeFromCart) (simp add: stored_cart_def world_A_def)
qed

text \<open>
  C10. The claim: from every state of the store, each single cart mutation leaves the
  stored quantity of every other identifier as it was. \<open>addToCart\<close> does not read the
  store: it writes the Meals page's copy of the cart, with the target incremented, over
  it. When the store has changed since the page mounted, the entries the copy lacks are
  lost: with \<^verbatim>\<open>{A: 2, C: 5}\<close> stored and the copy \<^verbatim>\<open>{A: 2}\<close>, adding \<open>B\<close> removes \<open>C\<close>.
\<close>

theorem C10_counterexample:
  "''C'' \<noteq> ''B''
   \<and> map_of (stored_cart world_stale) ''C'' = Some (Fin 5)
   \<and> map_of (stored_cart (addToCart ''B'' world_stale)) ''C'' = None"
  by (simp add: world_stale_def world0_def stored_cart_def addToCart_def emit_def Let_def)

text \<open>
  C10, as amended: \<open>removeFromCart\<close> and \<open>updateQuantity\<close>, from any state, leave the
  stored quantity of every other identifier as it was. After \<open>addToCart\<close> the stored
  quantity of every other identifier is the one in the Meals page's copy of the cart, so
  it is unchanged from any state in which that copy is the stored cart (the page copies
  the stored cart when it mounts, and \<open>addToCart\<close> writes both). An identifier that is not
  in the copy is added with quantity 1.
\<close>

theorem C10_other_entries_unchanged:
  assumes "k \<noteq> mealId"
  shows "map_of (stored_cart (removeFromCart b mealId w)) k = map_of (stored_cart w) k
       \<and> map_of (stored_cart (updateQuantity b mealId q w)) k = map_of (stored_cart w) k
       \<and> map_of (stored_cart (addToCart mealId w)) k = map_of (Meals_cart w) k
       \<and> (Meals_cart w = stored_cart w \<longrightarrow>
            map_of (stored_cart (addToCart mealId w)) k = map_of (stored_cart w) k)
       \<and> (map_of (Meals_cart w) mealId = None \<longrightarrow>
            map_of (stored_cart (addToCart mealId w)) mealId = Some (Fin 1))"
proof -
  have r: "map_of (stored_cart (removeFromCart b mealId w)) k = map_of (stored_cart w) k"
    using assms by (simp add: stored_cart_removeFromCart delete_conv')
  have u: "map_of (stored_cart (updateQuantity b mealId q w)) k = map_of (stored_cart w) k"
    using assms
    by (simp add: stored_cart_updateQuantity delete_conv' update_conv')
  have a: "map_of (stored_cart (addToCart mealId w)) k = map_of (Meals_cart w) k"
    using assms by (simp add: addToCart_def emit_def Let_def stored_cart_def update_conv')
  have n: "map_of (Meals_cart w) mealId = None \<Longrightarrow>
             map_of (stored_cart (addToCart mealId w)) mealId = Some (Fin 1)"
    by (simp add: addToCart_def emit_def Let_def stored_cart_def update_conv' round_double_1)
  show ?thesis using r u a n by simp
qed

theorem C10_witness:
  "''A'' \<noteq> ''B''
   \<and> Meals_cart (Meals_mount world_A) = stored_cart (Meals_mount world_A)
   \<and> map_of (stored_cart (removeFromCart backend0 ''B'' (Meals_mount world_A))) ''A'' = Some (Fin 2)
   \<and> map_of (stored_cart (updateQuantity backend0 ''B'' (Fin 3) (Meals_mount world_A))) ''A''
       = Some (Fin 2)
   \<and> map_of (stored_cart (addToCart ''B'' (Meals_mount world_A))) ''A'' = Some (Fin 2)
   \<and> map_of (stored_cart (addToCart ''B'' (Meals_mount world_A))) ''B'' = Some (Fin 1)"
proof -
  let ?w = "Meals_mount world_A"
  have h: "''A'' \<noteq> ''B''" by simp
  have s: "Meals_cart ?w = stored_cart ?w" by (rule Meals_mount_in_sync)
  have c: "stored_cart ?w = [(''A'', Fin 2)]"
    by (simp add: Meals_mount_def stored_cart_def world_A_def)
  have m: "map_of (Meals_cart ?w) ''B'' = None" by (simp add: s c)
  from C10_other_entries_unchanged[OF h, of backend0 ?w "Fin 3"] show ?thesis
    using h s m by (simp add: c)
qed

end
